theory Spec2Isabelle
  imports Complex_Main
begin

section \<open>Translation logger (modules/translation\_logger.py)\<close>

text \<open>
  The logger buffers the most recent translation record of one message id and writes it
  out once the id changes, once it has been stable for \<open>stable_sec\<close> seconds, or when a
  flush is forced. Clock readings (\<open>time.time()\<close>) are inputs of the model; they are
  reals here, and only compared and subtracted.
\<close>

type_synonym msg_id = string

text \<open>One element of \<open>textList\<close>: a dict read with \<open>.get("Lang", "")\<close> and \<open>.get("Text", "")\<close>.\<close>

record entry =
  Lang :: "string option"
  Text :: "string option"

text \<open>
  The JSON object received from the WebSocket, read with \<open>data.get("MessageID")\<close> and
  \<open>data.get("textList")\<close>: a missing key and a JSON null both read as \<open>None\<close>.
\<close>

record raw_message =
  MessageID :: "msg_id option"
  textList :: "entry list option"

text \<open>
  The internal format built by \<open>_convert_to_internal_format\<close>: a dict with the five keys
  MsgID, Lang1, Text1, Lang2, Text2. \<open>MsgID\<close> is read back with \<open>msg.get("MsgID")\<close>.
\<close>

record internal_msg =
  MsgID :: "msg_id option"
  Lang1 :: string
  Text1 :: string
  Lang2 :: string
  Text2 :: string

text \<open>
  The fields of \<open>TranslationLogger\<close>. \<open>finalized\<close> is the effect of the flush body: one
  element per run of the body past its guard, in order (the line appended to the log file
  and the record handed to \<open>on_message_logged\<close>, both built from that \<open>last_data\<close>).
  \<open>thread_started\<close> is \<open>self._thread is not None\<close>.
\<close>

record translation_logger =
  stable_sec :: real
  current_id :: "msg_id option"
  last_data :: "internal_msg option"
  last_update_time :: "real option"
  stop_flag :: bool
  thread_started :: bool
  finalized :: "internal_msg list"

definition init_logger :: "real \<Rightarrow> translation_logger" where
  "init_logger s =
     \<lparr>stable_sec = s, current_id = None, last_data = None, last_update_time = None,
      stop_flag = False, thread_started = False, finalized = []\<rparr>"

definition get_default :: "'a option \<Rightarrow> 'a \<Rightarrow> 'a" where
  "get_default v d = (case v of None \<Rightarrow> d | Some x \<Rightarrow> x)"

definition convert_to_internal_format :: "raw_message \<Rightarrow> internal_msg option" where
  "convert_to_internal_format data =
     (case MessageID data of
        None \<Rightarrow> None
      | Some msg_id \<Rightarrow>
          (let text_list = (case textList data of None \<Rightarrow> [] | Some l \<Rightarrow> l) in
           if length text_list < 2 then None
           else Some \<lparr>MsgID = Some msg_id,
                      Lang1 = get_default (Lang (text_list ! 0)) '''',
                      Text1 = get_default (Text (text_list ! 0)) '''',
                      Lang2 = get_default (Lang (text_list ! 1)) '''',
                      Text2 = get_default (Text (text_list ! 1)) ''''\<rparr>))"

text \<open>
  \<open>_flush_locked\<close>. Its guard \<open>if not self.last_data\<close> holds for \<open>None\<close> and for an empty
  dict; a stored message always has its five keys, so only \<open>None\<close> is falsy here.
\<close>

definition flush_locked :: "translation_logger \<Rightarrow> translation_logger" where
  "flush_locked s =
     (case last_data s of
        None \<Rightarrow> s
      | Some d \<Rightarrow>
          s\<lparr>finalized := finalized s @ [d],
            current_id := None, last_data := None, last_update_time := None\<rparr>)"

definition add_message_internal ::
  "translation_logger \<Rightarrow> internal_msg \<Rightarrow> real \<Rightarrow> translation_logger" where
  "add_message_internal s msg now =
     (case MsgID msg of
        None \<Rightarrow> s
      | Some msg_id \<Rightarrow>
          (case current_id s of
             None \<Rightarrow>
               s\<lparr>current_id := Some msg_id, last_data := Some msg,
                 last_update_time := Some now\<rparr>
           | Some cur \<Rightarrow>
               if msg_id \<noteq> cur then
                 (flush_locked s)\<lparr>current_id := Some msg_id, last_data := Some msg,
                                  last_update_time := Some now\<rparr>
               else s\<lparr>last_data := Some msg, last_update_time := Some now\<rparr>))"

definition add_yukacone_message ::
  "translation_logger \<Rightarrow> raw_message \<Rightarrow> real \<Rightarrow> translation_logger" where
  "add_yukacone_message s data now =
     (case convert_to_internal_format data of
        None \<Rightarrow> s
      | Some converted \<Rightarrow> add_message_internal s converted now)"

text \<open>One round of \<open>_periodic_flush_loop\<close> after its sleep, with the clock reading \<open>now\<close>.\<close>

definition periodic_check :: "translation_logger \<Rightarrow> real \<Rightarrow> translation_logger" where
  "periodic_check s now =
     (case current_id s of
        None \<Rightarrow> s
      | Some _ \<Rightarrow>
          (case last_update_time s of
             None \<Rightarrow> s
           | Some t \<Rightarrow> if now - t \<ge> stable_sec s then flush_locked s else s))"

definition flush_now :: "translation_logger \<Rightarrow> translation_logger" where
  "flush_now s = flush_locked s"

definition start :: "translation_logger \<Rightarrow> translation_logger" where
  "start s = (if thread_started s then s else s\<lparr>stop_flag := False, thread_started := True\<rparr>)"

definition stop :: "translation_logger \<Rightarrow> translation_logger" where
  "stop s = (if \<not> thread_started s then s else flush_locked (s\<lparr>stop_flag := True\<rparr>))"

subsection \<open>Sequences of calls\<close>

datatype event = Ingest raw_message real | Check real | ForceFlush

fun apply_event :: "translation_logger \<Rightarrow> event \<Rightarrow> translation_logger" where
  "apply_event s (Ingest data now) = add_yukacone_message s data now"
| "apply_event s (Check now) = periodic_check s now"
| "apply_event s ForceFlush = flush_now s"

fun run_events :: "translation_logger \<Rightarrow> event list \<Rightarrow> translation_logger" where
  "run_events s [] = s"
| "run_events s (e # es) = run_events (apply_event s e) es"

text \<open>The public operations of the logger, for runs that also start and stop it.\<close>

datatype operation = Event event | Start | Stop

fun apply_operation :: "translation_logger \<Rightarrow> operation \<Rightarrow> translation_logger" where
  "apply_operation s (Event e) = apply_event s e"
| "apply_operation s Start = start s"
| "apply_operation s Stop = stop s"

fun run_operations :: "translation_logger \<Rightarrow> operation list \<Rightarrow> translation_logger" where
  "run_operations s [] = s"
| "run_operations s (x # xs) = run_operations (apply_operation s x) xs"

text \<open>
  The count the specification speaks of, written from its words and without the logger:
  a run of calls with one id is open from its first call; it is ended, and counted, by a
  call with another id, by a check at which the last call of the run is at least the
  stable window old, or by a forced flush. A record without an id or with fewer than two
  entries is not a call.
\<close>

definition well_formed :: "raw_message \<Rightarrow> bool" where
  "well_formed data =
     (MessageID data \<noteq> None \<and> (case textList data of None \<Rightarrow> False | Some l \<Rightarrow> 2 \<le> length l))"

fun ended_runs :: "real \<Rightarrow> (msg_id \<times> real) option \<Rightarrow> event list \<Rightarrow> nat" where
  "ended_runs w run [] = 0"
| "ended_runs w run (Ingest data now # es) =
     (if \<not> well_formed data then ended_runs w run es
      else case MessageID data of
             None \<Rightarrow> ended_runs w run es
           | Some a \<Rightarrow>
               (case run of
                  None \<Rightarrow> ended_runs w (Some (a, now)) es
                | Some (i, t) \<Rightarrow>
                    (if a = i then 0 else 1) + ended_runs w (Some (a, now)) es))"
| "ended_runs w run (Check now # es) =
     (case run of
        None \<Rightarrow> ended_runs w None es
      | Some (i, t) \<Rightarrow>
          if now - t \<ge> w then 1 + ended_runs w None es else ended_runs w run es)"
| "ended_runs w run (ForceFlush # es) =
     (case run of
        None \<Rightarrow> ended_runs w None es
      | Some (i, t) \<Rightarrow> 1 + ended_runs w None es)"

text \<open>The pending fields are either all unset or all set.\<close>

definition pending_consistent :: "translation_logger \<Rightarrow> bool" where
  "pending_consistent s =
     ((current_id s = None \<and> last_data s = None \<and> last_update_time s = None)
      \<or> (current_id s \<noteq> None \<and> last_data s \<noteq> None \<and> last_update_time s \<noteq> None))"

definition open_run :: "translation_logger \<Rightarrow> (msg_id \<times> real) option" where
  "open_run s =
     (case current_id s of
        None \<Rightarrow> None
      | Some i \<Rightarrow> (case last_update_time s of None \<Rightarrow> None | Some t \<Rightarrow> Some (i, t)))"

section \<open>Yukacone client (modules/yukacone\_client.py)\<close>

text \<open>
  A translation profile is a dict of the configuration, read with \<open>.get\<close>; a key that is
  absent reads as \<open>None\<close>.
\<close>

record translation_param =
  slot :: "int option"
  language :: "string option"
  engine :: "string option"

record profile =
  name :: "string option"
  recognition_language :: "string option"
  translation_param :: "translation_param option"

text \<open>The HTTP requests of the client: the path and its parameters.\<close>

datatype api_call =
    SetRecognitionParam "string option"
  | SetTranslationParam int string string
  | MuteOn
  | MuteOff

text \<open>
  What one request does inside \<open>_call_api\<close>: the response is a success; or
  \<open>requests.get\<close> or \<open>raise_for_status\<close> raises a \<open>RequestException\<close> (no connection,
  timeout, error status); or an exception of another class is raised.
\<close>

datatype api_outcome = Response_ok | Request_exception | Other_exception

text \<open>
  The service is an input of the model: the outcome of the request made after \<open>k\<close>
  earlier requests of this client.
\<close>

type_synonym service = "nat \<Rightarrow> api_outcome"

datatype py_error = ZeroDivisionError | OverflowError | OtherError

text \<open>
  The fields of \<open>YukaconeClient\<close>. \<open>has_on_status_change\<close> is whether a callback was
  given; \<open>status_changes\<close> counts its invocations and \<open>api_calls\<close> lists the requests
  made, both effects of the model. The callback itself is taken not to raise.
\<close>

record yukacone_client =
  translation_profiles :: "profile list"
  has_on_status_change :: bool
  reconnect_delay :: real
  max_reconnect_delay :: real
  current_profile_index :: int
  is_muted :: bool
  last_recognition_language :: "string option"
  is_running :: bool
  reconnect_attempts :: nat
  api_calls :: "api_call list"
  status_changes :: nat

definition init_client :: "profile list \<Rightarrow> bool \<Rightarrow> real \<Rightarrow> real \<Rightarrow> yukacone_client" where
  "init_client profiles cb d m =
     \<lparr>translation_profiles = profiles, has_on_status_change = cb,
      reconnect_delay = d, max_reconnect_delay = m,
      current_profile_index = 0, is_muted = True, last_recognition_language = None,
      is_running = False, reconnect_attempts = 0, api_calls = [], status_changes = 0\<rparr>"

text \<open>
  \<open>_call_api\<close> returns \<open>True\<close> after a successful response, catches a
  \<open>RequestException\<close> and returns \<open>False\<close>, and lets any other exception through.
\<close>

definition call_api ::
  "service \<Rightarrow> api_call \<Rightarrow> yukacone_client \<Rightarrow> (py_error + bool) \<times> yukacone_client" where
  "call_api env c s =
     (let s' = s\<lparr>api_calls := api_calls s @ [c]\<rparr> in
      case env (length (api_calls s)) of
        Response_ok \<Rightarrow> (Inr True, s')
      | Request_exception \<Rightarrow> (Inr False, s')
      | Other_exception \<Rightarrow> (Inl OtherError, s'))"

definition on_status_change :: "yukacone_client \<Rightarrow> yukacone_client" where
  "on_status_change s =
     (if has_on_status_change s then s\<lparr>status_changes := status_changes s + 1\<rparr> else s)"

text \<open>
  \<open>set_translation_profile\<close>. The value returned by \<open>_call_api\<close> is not looked at; an
  exception leaves the \<open>try\<close> block at once and the method returns \<open>False\<close>. The two
  sleeps are not modelled.
\<close>

definition set_translation_profile ::
  "service \<Rightarrow> int \<Rightarrow> yukacone_client \<Rightarrow> bool \<times> yukacone_client" where
  "set_translation_profile env index s =
     (if index < 0 \<or> index \<ge> int (length (translation_profiles s)) then (False, s)
      else
        let p = translation_profiles s ! nat index;
            new_recognition_lang = recognition_language p;
            (r1, s1) =
              (if new_recognition_lang \<noteq> last_recognition_language s then
                 (case call_api env (SetRecognitionParam new_recognition_lang) s of
                    (Inl e, s') \<Rightarrow> (Inl e, s')
                  | (Inr b, s') \<Rightarrow>
                      (Inr b, s'\<lparr>last_recognition_language := new_recognition_lang\<rparr>))
               else (Inr True, s))
        in case r1 of
             Inl e \<Rightarrow> (False, s1)
           | Inr b \<Rightarrow>
               (let trans_param =
                      get_default (translation_param p)
                        \<lparr>slot = None, language = None, engine = None\<rparr>
                in case call_api env
                          (SetTranslationParam (get_default (slot trans_param) 1)
                             (get_default (language trans_param) ''en-US'')
                             (get_default (engine trans_param) ''google'')) s1 of
                     (Inl e, s2) \<Rightarrow> (False, s2)
                   | (Inr b2, s2) \<Rightarrow>
                       (True, on_status_change (s2\<lparr>current_profile_index := index\<rparr>))))"

text \<open>
  \<open>next_profile\<close> and \<open>previous_profile\<close>: Python's \<open>%\<close> by a positive number is \<open>mod\<close>
  on \<open>int\<close>; by zero, with an empty profile list, it raises before anything is changed.
\<close>

definition next_profile ::
  "service \<Rightarrow> yukacone_client \<Rightarrow> py_error + (bool \<times> yukacone_client)" where
  "next_profile env s =
     (if length (translation_profiles s) = 0 then Inl ZeroDivisionError
      else Inr (set_translation_profile env
                  ((current_profile_index s + 1) mod int (length (translation_profiles s))) s))"

definition previous_profile ::
  "service \<Rightarrow> yukacone_client \<Rightarrow> py_error + (bool \<times> yukacone_client)" where
  "previous_profile env s =
     (if length (translation_profiles s) = 0 then Inl ZeroDivisionError
      else Inr (set_translation_profile env
                  ((current_profile_index s - 1) mod int (length (translation_profiles s))) s))"

definition set_mute :: "service \<Rightarrow> bool \<Rightarrow> yukacone_client \<Rightarrow> bool \<times> yukacone_client" where
  "set_mute env muted s =
     (case call_api env (if muted then MuteOn else MuteOff) s of
        (Inl e, s') \<Rightarrow> (False, s')
      | (Inr b, s') \<Rightarrow> (True, on_status_change (s'\<lparr>is_muted := muted\<rparr>)))"

definition toggle_mute :: "service \<Rightarrow> yukacone_client \<Rightarrow> bool \<times> yukacone_client" where
  "toggle_mute env s = set_mute env (\<not> is_muted s) s"

definition get_current_profile :: "yukacone_client \<Rightarrow> profile option" where
  "get_current_profile s =
     (if 0 \<le> current_profile_index s
         \<and> current_profile_index s < int (length (translation_profiles s))
      then Some (translation_profiles s ! nat (current_profile_index s)) else None)"

text \<open>\<open>next_profile\<close> called \<open>n\<close> times in a row; the result is whether every call returned \<open>True\<close>.\<close>

fun next_profile_times ::
  "service \<Rightarrow> nat \<Rightarrow> yukacone_client \<Rightarrow> py_error + (bool \<times> yukacone_client)" where
  "next_profile_times env 0 s = Inr (True, s)"
| "next_profile_times env (Suc n) s =
     (case next_profile env s of
        Inl e \<Rightarrow> Inl e
      | Inr (ok, s') \<Rightarrow>
          (case next_profile_times env n s' of
             Inl e \<Rightarrow> Inl e
           | Inr (ok', s'') \<Rightarrow> Inr (ok \<and> ok', s'')))"

text \<open>The range the index of the current profile is meant to stay in.\<close>

definition index_in_range :: "yukacone_client \<Rightarrow> bool" where
  "index_in_range s =
     (0 \<le> current_profile_index s
      \<and> current_profile_index s < int (length (translation_profiles s)))"

text \<open>A service that answers every request in the same way.\<close>

definition always :: "api_outcome \<Rightarrow> service" where
  "always r k = r"

subsection \<open>The reconnect loop\<close>

text \<open>
  The delay of \<open>_ws_connect_loop\<close> is
  \<open>min(self.reconnect_delay * (2 ** self._reconnect_attempts), self.max_reconnect_delay)\<close>.
  \<open>reconnect_delay\<close> is a float and \<open>2 ** attempts\<close> an int of any size, which the product
  first converts to a float: from \<open>2 ** 1024\<close> on that conversion raises OverflowError.
  Below, the product of a float and a power of two is exact or infinite, and the minimum
  with a finite maximum is the one of the reals.
\<close>

definition backoff_delay :: "yukacone_client \<Rightarrow> py_error + real" where
  "backoff_delay s =
     (if reconnect_attempts s \<ge> 1024 then Inl OverflowError
      else Inr (min (reconnect_delay s * 2 ^ reconnect_attempts s) (max_reconnect_delay s)))"

definition on_ws_open :: "yukacone_client \<Rightarrow> yukacone_client" where
  "on_ws_open s = s\<lparr>reconnect_attempts := 0\<rparr>"

text \<open>
  One connection attempt, as the loop sees it: whether the connection was opened before
  \<open>run_forever\<close> came back (then \<open>_on_ws_open\<close> ran), and whether \<open>disconnect\<close> was called
  in the meantime.
\<close>

record attempt =
  opened :: bool
  disconnected :: bool

datatype loop_status = Waiting | Stopped | Crashed py_error

text \<open>
  \<open>_ws_connect_loop\<close> over the attempts given; \<open>slept\<close> collects the delays passed to
  \<open>time.sleep\<close>. The delay is computed outside the \<open>try\<close>, so an exception there ends
  the loop.
\<close>

fun ws_connect_loop ::
  "yukacone_client \<Rightarrow> attempt list \<Rightarrow> real list \<Rightarrow> loop_status \<times> real list \<times> yukacone_client" where
  "ws_connect_loop s [] slept = (if is_running s then Waiting else Stopped, slept, s)"
| "ws_connect_loop s (a # as) slept =
     (if \<not> is_running s then (Stopped, slept, s)
      else
        let s1 = (if opened a then on_ws_open s else s);
            s2 = (if disconnected a then s1\<lparr>is_running := False\<rparr> else s1)
        in if \<not> is_running s2 then (Stopped, slept, s2)
           else case backoff_delay s2 of
                  Inl e \<Rightarrow> (Crashed e, slept, s2)
                | Inr delay \<Rightarrow>
                    ws_connect_loop (s2\<lparr>reconnect_attempts := reconnect_attempts s2 + 1\<rparr>)
                      as (slept @ [delay]))"

section \<open>Media key controller (modules/media\_controller.py)\<close>

datatype key = Media_play_pause | Media_next | Media_previous | Other_key

text \<open>
  The controller holds the client; \<open>xso_sent\<close> lists the calls of \<open>xso.send_status\<close>
  (profile and mute flag), \<open>callbacks\<close> counts the invocations of the controller's own
  \<open>on_status_change\<close>, present when \<open>has_callback\<close>.
\<close>

record media_key_controller =
  yukacone :: yukacone_client
  has_callback :: bool
  xso_sent :: "(profile \<times> bool) list"
  callbacks :: nat

text \<open>
  The tail shared by the three handlers after a success: send the state to XSOverlay if
  the current profile is a non-empty dict (taken here as: one of its three keys is
  present), then call the callback.
\<close>

definition profile_truthy :: "profile \<Rightarrow> bool" where
  "profile_truthy p =
     (name p \<noteq> None \<or> recognition_language p \<noteq> None \<or> translation_param p \<noteq> None)"

definition send_and_notify :: "media_key_controller \<Rightarrow> media_key_controller" where
  "send_and_notify m =
     (let m1 = (case get_current_profile (yukacone m) of
                  None \<Rightarrow> m
                | Some p \<Rightarrow>
                    if profile_truthy p
                    then m\<lparr>xso_sent := xso_sent m @ [(p, is_muted (yukacone m))]\<rparr>
                    else m)
      in if has_callback m1 then m1\<lparr>callbacks := callbacks m1 + 1\<rparr> else m1)"

definition handle_play_pause :: "service \<Rightarrow> media_key_controller \<Rightarrow> media_key_controller" where
  "handle_play_pause env m =
     (case toggle_mute env (yukacone m) of
        (success, c) \<Rightarrow>
          if success then send_and_notify (m\<lparr>yukacone := c\<rparr>) else m\<lparr>yukacone := c\<rparr>)"

definition handle_next ::
  "service \<Rightarrow> media_key_controller \<Rightarrow> py_error + media_key_controller" where
  "handle_next env m =
     (case next_profile env (yukacone m) of
        Inl e \<Rightarrow> Inl e
      | Inr (success, c) \<Rightarrow>
          Inr (if success
               then send_and_notify (m\<lparr>yukacone := snd (set_mute env False c)\<rparr>)
               else m\<lparr>yukacone := c\<rparr>))"

definition handle_previous ::
  "service \<Rightarrow> media_key_controller \<Rightarrow> py_error + media_key_controller" where
  "handle_previous env m =
     (case previous_profile env (yukacone m) of
        Inl e \<Rightarrow> Inl e
      | Inr (success, c) \<Rightarrow>
          Inr (if success
               then send_and_notify (m\<lparr>yukacone := snd (set_mute env False c)\<rparr>)
               else m\<lparr>yukacone := c\<rparr>))"

text \<open>\<open>_on_key_press\<close> catches and logs whatever a handler raises.\<close>

definition on_key_press :: "service \<Rightarrow> key \<Rightarrow> media_key_controller \<Rightarrow> media_key_controller" where
  "on_key_press env k m =
     (case k of
        Media_play_pause \<Rightarrow> handle_play_pause env m
      | Media_next \<Rightarrow> (case handle_next env m of Inl e \<Rightarrow> m | Inr m' \<Rightarrow> m')
      | Media_previous \<Rightarrow> (case handle_previous env m of Inl e \<Rightarrow> m | Inr m' \<Rightarrow> m')
      | Other_key \<Rightarrow> m)"


section \<open>Example data\<close>

text \<open>
  The values of the usage examples at the end of the modules: two profiles that both
  recognise Japanese, a client with the default delays of 3 and 60 seconds, and the
  records sent to the logger there.
\<close>

definition example_profiles :: "profile list" where
  "example_profiles =
     [\<lparr>name = Some ''JP->EN'', recognition_language = Some ''ja'',
       translation_param =
         Some \<lparr>slot = Some 1, language = Some ''en-US'', engine = Some ''google''\<rparr>\<rparr>,
      \<lparr>name = Some ''JP->CN'', recognition_language = Some ''ja'',
       translation_param =
         Some \<lparr>slot = Some 1, language = Some ''zh-CN'', engine = Some ''google''\<rparr>\<rparr>]"

definition example_client :: yukacone_client where
  "example_client = init_client example_profiles True 3 60"

definition example_controller :: media_key_controller where
  "example_controller =
     \<lparr>yukacone = example_client, has_callback = True, xso_sent = [], callbacks = 0\<rparr>"

definition example_message :: "msg_id \<Rightarrow> string \<Rightarrow> raw_message" where
  "example_message i t =
     \<lparr>MessageID = Some i,
      textList = Some [\<lparr>Lang = Some ''ja'', Text = Some ''konnichiwa''\<rparr>,
                       \<lparr>Lang = Some ''en'', Text = Some t\<rparr>]\<rparr>"

definition failed_attempt :: attempt where
  "failed_attempt = \<lparr>opened = False, disconnected = False\<rparr>"

section \<open>Properties of the translation logger\<close>

subsection \<open>Conversion of the received record\<close>

lemma convert_well_formed:
  "well_formed data \<Longrightarrow>
     \<exists>m. convert_to_internal_format data = Some m \<and> MsgID m = MessageID data"
  by (auto simp: well_formed_def convert_to_internal_format_def Let_def
           split: option.splits)

lemma convert_not_well_formed:
  "\<not> well_formed data \<Longrightarrow> convert_to_internal_format data = None"
  by (auto simp: well_formed_def convert_to_internal_format_def Let_def
           split: option.splits)

lemma example_message_well_formed: "well_formed (example_message i t)"
  by (simp add: example_message_def well_formed_def)

lemma example_message_id: "MessageID (example_message i t) = Some i"
  by (simp add: example_message_def)

text \<open>
  C6: a received record without an id, or with fewer than two language/text entries,
  changes nothing: the logger after the call is the logger before it, so the pending id,
  payload and time stamp are the same and no record is finalized.
\<close>

theorem malformed_is_inert:
  "MessageID data = None \<or> length (case textList data of None \<Rightarrow> [] | Some l \<Rightarrow> l) < 2
     \<Longrightarrow> add_yukacone_message s data now = s"
  by (auto simp: add_yukacone_message_def convert_to_internal_format_def Let_def
        split: option.splits)

text \<open>A record with a single entry arrives while \<open>msg001\<close> is pending.\<close>

theorem malformed_is_inert_witness:
  "add_yukacone_message
      (add_yukacone_message (init_logger 10) (example_message ''msg001'' ''Hello'') 0)
      \<lparr>MessageID = Some ''msg002'',
       textList = Some [\<lparr>Lang = Some ''ja'', Text = Some ''sayonara''\<rparr>]\<rparr> 1
     = add_yukacone_message (init_logger 10) (example_message ''msg001'' ''Hello'') 0"
  using malformed_is_inert
    [of "\<lparr>MessageID = Some ''msg002'',
          textList = Some [\<lparr>Lang = Some ''ja'', Text = Some ''sayonara''\<rparr>]\<rparr>"
        "add_yukacone_message (init_logger 10) (example_message ''msg001'' ''Hello'') 0" 1]
  by simp

subsection \<open>One call of the logger\<close>

lemma ingest_sets_pending:
  assumes "convert_to_internal_format d = Some m" "MsgID m = Some a"
  shows "current_id (add_yukacone_message s d now) = Some a"
    and "last_data (add_yukacone_message s d now) = Some m"
    and "last_update_time (add_yukacone_message s d now) = Some now"
  using assms
  by (auto simp: add_yukacone_message_def add_message_internal_def flush_locked_def
        split: option.splits)

lemma ingest_same_or_none_emits_nothing:
  assumes "convert_to_internal_format d = Some m" "MsgID m = Some a"
    and "current_id s = None \<or> current_id s = Some a"
  shows "finalized (add_yukacone_message s d now) = finalized s"
  using assms
  by (auto simp: add_yukacone_message_def add_message_internal_def)

text \<open>
  C4: when a message with id \<open>a\<close> and payload \<open>p1\<close> is pending, a call with another id
  \<open>b\<close> finalizes exactly one record, \<open>p1\<close>, during that call, and afterwards \<open>b\<close> is
  pending with the new payload and the time of the call, not yet finalized.
\<close>

theorem id_switch_flush:
  assumes "current_id s = Some a" "last_data s = Some p1"
    and "well_formed d2" "MessageID d2 = Some b" "b \<noteq> a"
  shows "\<exists>m2. convert_to_internal_format d2 = Some m2
           \<and> finalized (add_yukacone_message s d2 now) = finalized s @ [p1]
           \<and> current_id (add_yukacone_message s d2 now) = Some b
           \<and> last_data (add_yukacone_message s d2 now) = Some m2
           \<and> last_update_time (add_yukacone_message s d2 now) = Some now"
proof -
  from convert_well_formed [OF assms(3)] assms(4) obtain m2 where
    m2: "convert_to_internal_format d2 = Some m2" "MsgID m2 = Some b"
    by auto
  then show ?thesis using assms(1,2,5)
    by (simp add: add_yukacone_message_def add_message_internal_def flush_locked_def)
qed

text \<open>The usage example: \<open>msg001\<close> is pending with "Hello 2" when \<open>msg002\<close> arrives.\<close>

theorem id_switch_flush_witness:
  "finalized (add_yukacone_message
       (add_yukacone_message (init_logger 3) (example_message ''msg001'' ''Hello 2'') 2)
       (example_message ''msg002'' ''Goodbye'') 3)
     = [\<lparr>MsgID = Some ''msg001'', Lang1 = ''ja'', Text1 = ''konnichiwa'',
         Lang2 = ''en'', Text2 = ''Hello 2''\<rparr>]
   \<and> current_id (add_yukacone_message
       (add_yukacone_message (init_logger 3) (example_message ''msg001'' ''Hello 2'') 2)
       (example_message ''msg002'' ''Goodbye'') 3) = Some ''msg002''"
proof -
  let ?s = "add_yukacone_message (init_logger 3) (example_message ''msg001'' ''Hello 2'') 2"
  let ?p1 = "\<lparr>MsgID = Some ''msg001'', Lang1 = ''ja'', Text1 = ''konnichiwa'',
               Lang2 = ''en'', Text2 = ''Hello 2''\<rparr>"
  have conv: "convert_to_internal_format (example_message ''msg001'' ''Hello 2'') = Some ?p1"
    by (simp add: convert_to_internal_format_def example_message_def get_default_def)
  have cur: "current_id ?s = Some ''msg001''"
    by (rule ingest_sets_pending(1) [OF conv]) simp
  have dat: "last_data ?s = Some ?p1"
    by (rule ingest_sets_pending(2) [OF conv]) simp
  have fin: "finalized ?s = []"
    using ingest_same_or_none_emits_nothing [OF conv, of "''msg001''" "init_logger 3" 2]
    by (simp add: init_logger_def)
  have ne: "''msg002'' \<noteq> ''msg001''" by simp
  from id_switch_flush
    [of ?s "''msg001''" ?p1 "example_message ''msg002'' ''Goodbye''" "''msg002''" 3]
  show ?thesis
    using cur dat ne fin by (auto simp: example_message_well_formed example_message_id)
qed

text \<open>
  C3: three calls in a row with the same id \<open>a\<close> leave \<open>a\<close> pending with the payload of
  the third call as a whole (the conversion of the third record alone) and the time of
  the third call; the second and third call finalize nothing, and the flush that follows
  finalizes exactly that third payload.
\<close>

theorem last_write_wins:
  assumes "well_formed d1" "well_formed d2" "well_formed d3"
    and "MessageID d1 = Some a" "MessageID d2 = Some a" "MessageID d3 = Some a"
  shows "\<exists>m3. convert_to_internal_format d3 = Some m3
     \<and> current_id (add_yukacone_message (add_yukacone_message
           (add_yukacone_message s d1 t1) d2 t2) d3 t3) = Some a
     \<and> last_data (add_yukacone_message (add_yukacone_message
           (add_yukacone_message s d1 t1) d2 t2) d3 t3) = Some m3
     \<and> last_update_time (add_yukacone_message (add_yukacone_message
           (add_yukacone_message s d1 t1) d2 t2) d3 t3) = Some t3
     \<and> finalized (add_yukacone_message (add_yukacone_message
           (add_yukacone_message s d1 t1) d2 t2) d3 t3)
         = finalized (add_yukacone_message s d1 t1)
     \<and> finalized (flush_locked (add_yukacone_message (add_yukacone_message
           (add_yukacone_message s d1 t1) d2 t2) d3 t3))
         = finalized (add_yukacone_message s d1 t1) @ [m3]"
proof -
  let ?s1 = "add_yukacone_message s d1 t1"
  let ?s2 = "add_yukacone_message ?s1 d2 t2"
  let ?s3 = "add_yukacone_message ?s2 d3 t3"
  from convert_well_formed [OF assms(1)] assms(4) obtain m1 where
    m1: "convert_to_internal_format d1 = Some m1" "MsgID m1 = Some a" by auto
  from convert_well_formed [OF assms(2)] assms(5) obtain m2 where
    m2: "convert_to_internal_format d2 = Some m2" "MsgID m2 = Some a" by auto
  from convert_well_formed [OF assms(3)] assms(6) obtain m3 where
    m3: "convert_to_internal_format d3 = Some m3" "MsgID m3 = Some a" by auto
  have c1: "current_id ?s1 = Some a" by (rule ingest_sets_pending(1) [OF m1])
  have c2: "current_id ?s2 = Some a" by (rule ingest_sets_pending(1) [OF m2])
  have f2: "finalized ?s2 = finalized ?s1"
    using ingest_same_or_none_emits_nothing [OF m2, of ?s1 t2] c1 by simp
  have f3: "finalized ?s3 = finalized ?s2"
    using ingest_same_or_none_emits_nothing [OF m3, of ?s2 t3] c2 by simp
  have d3: "last_data ?s3 = Some m3" by (rule ingest_sets_pending(2) [OF m3])
  have "finalized (flush_locked ?s3) = finalized ?s3 @ [m3]"
    using d3 by (simp add: flush_locked_def)
  then show ?thesis
    using m3(1) ingest_sets_pending [OF m3, of ?s2 t3] f2 f3 by simp
qed

text \<open>The usage example: \<open>msg001\<close> is sent three times, one second apart.\<close>

theorem last_write_wins_witness:
  "finalized (flush_locked (add_yukacone_message (add_yukacone_message
       (add_yukacone_message (init_logger 3) (example_message ''msg001'' ''Hello 0'') 0)
       (example_message ''msg001'' ''Hello 1'') 1)
       (example_message ''msg001'' ''Hello 2'') 2))
     = [\<lparr>MsgID = Some ''msg001'', Lang1 = ''ja'', Text1 = ''konnichiwa'',
         Lang2 = ''en'', Text2 = ''Hello 2''\<rparr>]"
proof -
  have conv: "convert_to_internal_format (example_message ''msg001'' ''Hello 2'')
      = Some \<lparr>MsgID = Some ''msg001'', Lang1 = ''ja'', Text1 = ''konnichiwa'',
               Lang2 = ''en'', Text2 = ''Hello 2''\<rparr>"
    by (simp add: convert_to_internal_format_def example_message_def get_default_def)
  have conv0: "convert_to_internal_format (example_message ''msg001'' ''Hello 0'')
      = Some \<lparr>MsgID = Some ''msg001'', Lang1 = ''ja'', Text1 = ''konnichiwa'',
               Lang2 = ''en'', Text2 = ''Hello 0''\<rparr>"
    by (simp add: convert_to_internal_format_def example_message_def get_default_def)
  have fin: "finalized (add_yukacone_message (init_logger 3)
      (example_message ''msg001'' ''Hello 0'') 0) = []"
    using ingest_same_or_none_emits_nothing [OF conv0, of "''msg001''" "init_logger 3" 0]
    by (simp add: init_logger_def)
  from last_write_wins
    [of "example_message ''msg001'' ''Hello 0''" "example_message ''msg001'' ''Hello 1''"
        "example_message ''msg001'' ''Hello 2''" "''msg001''" "init_logger 3" 0 1 2]
  show ?thesis
    using conv fin by (auto simp: example_message_well_formed example_message_id)
qed

subsection \<open>The pending fields\<close>

lemma init_consistent: "pending_consistent (init_logger w)"
  by (simp add: init_logger_def pending_consistent_def)

lemma flush_locked_consistent:
  "pending_consistent s \<Longrightarrow> pending_consistent (flush_locked s)"
  by (cases "last_data s") (auto simp: flush_locked_def pending_consistent_def)

lemma add_message_internal_consistent:
  "pending_consistent s \<Longrightarrow> pending_consistent (add_message_internal s msg now)"
  by (auto simp: add_message_internal_def flush_locked_def pending_consistent_def
           split: option.splits)

lemma add_yukacone_message_consistent:
  "pending_consistent s \<Longrightarrow> pending_consistent (add_yukacone_message s data now)"
  by (simp add: add_yukacone_message_def add_message_internal_consistent split: option.splits)

lemma periodic_check_consistent:
  "pending_consistent s \<Longrightarrow> pending_consistent (periodic_check s now)"
  by (simp add: periodic_check_def flush_locked_consistent split: option.splits)

lemma start_consistent: "pending_consistent s \<Longrightarrow> pending_consistent (start s)"
  by (simp add: start_def pending_consistent_def)

lemma stop_consistent: "pending_consistent s \<Longrightarrow> pending_consistent (stop s)"
  by (auto simp: stop_def flush_locked_def pending_consistent_def split: option.splits)

lemma apply_event_consistent:
  "pending_consistent s \<Longrightarrow> pending_consistent (apply_event s e)"
  by (cases e)
     (simp_all add: add_yukacone_message_consistent periodic_check_consistent
        flush_now_def flush_locked_consistent)

lemma apply_operation_consistent:
  "pending_consistent s \<Longrightarrow> pending_consistent (apply_operation s x)"
  by (cases x) (simp_all add: apply_event_consistent start_consistent stop_consistent)

lemma run_operations_consistent:
  "pending_consistent s \<Longrightarrow> pending_consistent (run_operations s xs)"
  by (induction xs arbitrary: s) (simp_all add: apply_operation_consistent)

text \<open>
  C10: the pending fields are all-or-nothing. After construction \<open>current_id\<close>,
  \<open>last_data\<close> and \<open>last_update_time\<close> are all \<open>None\<close>, and every operation (a call with
  a well-formed or a malformed record, a periodic check, a forced flush, start, stop)
  takes a logger whose three fields are all unset or all set to one that is so again;
  hence so is the logger after any sequence of operations.
\<close>

theorem pending_all_or_nothing:
  "pending_consistent (init_logger w)
   \<and> (pending_consistent s \<longrightarrow> pending_consistent (apply_operation s x))
   \<and> pending_consistent (run_operations (init_logger w) xs)"
  by (simp add: init_consistent apply_operation_consistent run_operations_consistent)

text \<open>
  A started logger takes a record, a malformed record, a check before the window has
  passed and a record with another id: \<open>msg002\<close> is pending, all three fields set.
\<close>

theorem pending_all_or_nothing_witness:
  "pending_consistent
     (run_operations (init_logger 3)
        [Start, Event (Ingest (example_message ''msg001'' ''Hello'') 0),
         Event (Ingest \<lparr>MessageID = None, textList = None\<rparr> 1), Event (Check 2),
         Event (Ingest (example_message ''msg002'' ''Goodbye'') 2)])
   \<and> current_id
       (run_operations (init_logger 3)
          [Start, Event (Ingest (example_message ''msg001'' ''Hello'') 0),
           Event (Ingest \<lparr>MessageID = None, textList = None\<rparr> 1), Event (Check 2),
           Event (Ingest (example_message ''msg002'' ''Goodbye'') 2)]) = Some ''msg002''"
  using pending_all_or_nothing
    [of 3 "init_logger 3" Start
        "[Start, Event (Ingest (example_message ''msg001'' ''Hello'') 0),
          Event (Ingest \<lparr>MessageID = None, textList = None\<rparr> 1), Event (Check 2),
          Event (Ingest (example_message ''msg002'' ''Goodbye'') 2)]"]
  by (simp add: init_logger_def start_def add_yukacone_message_def
        convert_to_internal_format_def example_message_def get_default_def
        add_message_internal_def periodic_check_def flush_locked_def)

subsection \<open>Runs of calls\<close>

lemma stable_sec_apply_event:
  "stable_sec (apply_event s e) = stable_sec s"
  by (cases e)
     (auto simp: add_yukacone_message_def add_message_internal_def periodic_check_def
        flush_now_def flush_locked_def split: option.splits)

lemma apply_event_count:
  assumes "pending_consistent s"
  shows "length (finalized (apply_event s e))
           + ended_runs (stable_sec s) (open_run (apply_event s e)) es
         = length (finalized s) + ended_runs (stable_sec s) (open_run s) (e # es)"
proof (cases e)
  case (Ingest data now)
  show ?thesis
  proof (cases "well_formed data")
    case False
    then show ?thesis using Ingest
      by (simp add: add_yukacone_message_def convert_not_well_formed)
  next
    case True
    then obtain m where m: "convert_to_internal_format data = Some m" "MsgID m = MessageID data"
      using convert_well_formed by blast
    from True obtain a where a: "MessageID data = Some a"
      by (auto simp: well_formed_def)
    show ?thesis using Ingest True m a assms
      by (auto simp: add_yukacone_message_def add_message_internal_def flush_locked_def
            open_run_def pending_consistent_def split: option.splits)
  qed
next
  case (Check now)
  then show ?thesis using assms
    by (auto simp: periodic_check_def flush_locked_def open_run_def pending_consistent_def
          split: option.splits)
next
  case ForceFlush
  then show ?thesis using assms
    by (auto simp: flush_now_def flush_locked_def open_run_def pending_consistent_def
          split: option.splits)
qed

lemma run_events_count:
  "pending_consistent s \<Longrightarrow>
     length (finalized (run_events s es))
       = length (finalized s) + ended_runs (stable_sec s) (open_run s) es"
proof (induction es arbitrary: s)
  case Nil
  then show ?case by simp
next
  case (Cons e es)
  have "length (finalized (run_events s (e # es)))
          = length (finalized (apply_event s e))
            + ended_runs (stable_sec s) (open_run (apply_event s e)) es"
    using Cons.IH [OF apply_event_consistent [OF Cons.prems], of e]
    by (simp add: stable_sec_apply_event)
  then show ?case using apply_event_count [OF Cons.prems] by simp
qed

text \<open>
  C1: for every finite sequence of calls of \<open>add_yukacone_message\<close>, periodic checks and
  forced flushes on a new logger, the number of finalized records is the number of runs
  of consecutive calls with one id that were ended, by a call with another id, by a check
  that finds the run at least the stable window old, or by a forced flush; no more and
  no fewer.
\<close>

theorem finalized_count_is_ended_runs:
  "length (finalized (run_events (init_logger w) es)) = ended_runs w None es"
  using run_events_count [OF init_consistent, of w es]
  by (simp add: init_logger_def open_run_def)

text \<open>
  With a window of 10: \<open>a\<close> twice, then \<open>b\<close> (ends \<open>a\<close>), a check too early, a check
  after the window (ends \<open>b\<close>), \<open>c\<close>, a forced flush (ends \<open>c\<close>), a second forced flush,
  then \<open>d\<close>, which stays pending: three records.
\<close>

theorem finalized_count_is_ended_runs_witness:
  "length (finalized (run_events (init_logger 10)
     [Ingest (example_message ''a'' ''Hello 0'') 0, Ingest (example_message ''a'' ''Hello 1'') 1,
      Ingest (example_message ''b'' ''Bye'') 2, Check 5, Check 12,
      Ingest (example_message ''c'' ''Hi'') 13, ForceFlush, ForceFlush,
      Ingest (example_message ''d'' ''Ho'') 14])) = 3"
  using finalized_count_is_ended_runs [of 10
     "[Ingest (example_message ''a'' ''Hello 0'') 0, Ingest (example_message ''a'' ''Hello 1'') 1,
      Ingest (example_message ''b'' ''Bye'') 2, Check 5, Check 12,
      Ingest (example_message ''c'' ''Hi'') 13, ForceFlush, ForceFlush,
      Ingest (example_message ''d'' ''Ho'') 14]"]
  by (simp add: example_message_well_formed example_message_id)

section \<open>Properties of the Yukacone client\<close>

subsection \<open>Profile index\<close>

lemma set_translation_profile_profiles:
  "translation_profiles (snd (set_translation_profile env i s)) = translation_profiles s"
  by (auto simp: set_translation_profile_def call_api_def on_status_change_def Let_def
        split: api_outcome.splits prod.splits sum.splits if_splits)

lemma set_translation_profile_index:
  "current_profile_index (snd (set_translation_profile env i s)) =
     (if fst (set_translation_profile env i s) then i else current_profile_index s)"
  by (auto simp: set_translation_profile_def call_api_def on_status_change_def Let_def
        split: api_outcome.splits prod.splits sum.splits if_splits)

lemma set_translation_profile_ok:
  assumes "\<forall>k. env k = Response_ok" "0 \<le> i" "i < int (length (translation_profiles s))"
  shows "fst (set_translation_profile env i s)"
  using assms
  by (auto simp: set_translation_profile_def call_api_def on_status_change_def Let_def
        split: api_outcome.splits prod.splits sum.splits if_splits)

lemma set_translation_profile_in_range:
  "index_in_range s \<Longrightarrow> index_in_range (snd (set_translation_profile env i s))"
  unfolding index_in_range_def
  by (auto simp: set_translation_profile_def call_api_def on_status_change_def Let_def
        split: api_outcome.splits prod.splits sum.splits if_splits)

lemma set_mute_in_range:
  "index_in_range s \<Longrightarrow> index_in_range (snd (set_mute env b s))"
  unfolding index_in_range_def
  by (auto simp: set_mute_def call_api_def on_status_change_def Let_def
        split: api_outcome.splits)

text \<open>
  The index stays in range under all five operations, whatever the service answers
  (an operation that raises changes nothing).
\<close>

lemma index_in_range_preserved:
  assumes "index_in_range s"
  shows "index_in_range (snd (set_translation_profile env i s))"
    and "index_in_range (snd (set_mute env b s))"
    and "index_in_range (snd (toggle_mute env s))"
    and "next_profile env s = Inr (ok, s') \<Longrightarrow> index_in_range s'"
    and "previous_profile env s = Inr (ok, s') \<Longrightarrow> index_in_range s'"
proof -
  show "index_in_range (snd (set_translation_profile env i s))"
    by (rule set_translation_profile_in_range [OF assms])
  show "index_in_range (snd (set_mute env b s))"
    by (rule set_mute_in_range [OF assms])
  show "index_in_range (snd (toggle_mute env s))"
    by (simp add: toggle_mute_def set_mute_in_range [OF assms])
  show "next_profile env s = Inr (ok, s') \<Longrightarrow> index_in_range s'"
    using set_translation_profile_in_range
      [OF assms, of env "(current_profile_index s + 1) mod int (length (translation_profiles s))"]
    by (auto simp: next_profile_def split: if_splits)
  show "previous_profile env s = Inr (ok, s') \<Longrightarrow> index_in_range s'"
    using set_translation_profile_in_range
      [OF assms, of env "(current_profile_index s - 1) mod int (length (translation_profiles s))"]
    by (auto simp: previous_profile_def split: if_splits)
qed

lemma next_profile_step:
  assumes "\<forall>k. env k = Response_ok" "translation_profiles s \<noteq> []"
  shows "\<exists>s'. next_profile env s = Inr (True, s')
           \<and> current_profile_index s'
               = (current_profile_index s + 1) mod int (length (translation_profiles s))
           \<and> translation_profiles s' = translation_profiles s"
proof -
  let ?n = "int (length (translation_profiles s))"
  let ?i = "(current_profile_index s + 1) mod ?n"
  from assms(2) have pos: "0 < ?n" by simp
  then have rng: "0 \<le> ?i" "?i < ?n" by simp_all
  have ok: "fst (set_translation_profile env ?i s)"
    by (rule set_translation_profile_ok [OF assms(1) rng])
  have "next_profile env s = Inr (set_translation_profile env ?i s)"
    using assms(2) by (simp add: next_profile_def)
  moreover have "set_translation_profile env ?i s = (True, snd (set_translation_profile env ?i s))"
    using ok by (cases "set_translation_profile env ?i s") simp
  ultimately show ?thesis
    using set_translation_profile_index [of env ?i s] ok set_translation_profile_profiles [of env ?i s]
    by auto
qed

lemma previous_profile_step:
  assumes "\<forall>k. env k = Response_ok" "translation_profiles s \<noteq> []"
  shows "\<exists>s'. previous_profile env s = Inr (True, s')
           \<and> current_profile_index s'
               = (current_profile_index s - 1) mod int (length (translation_profiles s))
           \<and> translation_profiles s' = translation_profiles s"
proof -
  let ?n = "int (length (translation_profiles s))"
  let ?i = "(current_profile_index s - 1) mod ?n"
  from assms(2) have pos: "0 < ?n" by simp
  then have rng: "0 \<le> ?i" "?i < ?n" by simp_all
  have ok: "fst (set_translation_profile env ?i s)"
    by (rule set_translation_profile_ok [OF assms(1) rng])
  have "previous_profile env s = Inr (set_translation_profile env ?i s)"
    using assms(2) by (simp add: previous_profile_def)
  moreover have "set_translation_profile env ?i s = (True, snd (set_translation_profile env ?i s))"
    using ok by (cases "set_translation_profile env ?i s") simp
  ultimately show ?thesis
    using set_translation_profile_index [of env ?i s] ok set_translation_profile_profiles [of env ?i s]
    by auto
qed

lemma next_profile_times_index:
  assumes "\<forall>k. env k = Response_ok" "translation_profiles s \<noteq> []" "index_in_range s"
  shows "\<exists>s'. next_profile_times env n s = Inr (True, s')
           \<and> current_profile_index s'
               = (current_profile_index s + int n) mod int (length (translation_profiles s))
           \<and> translation_profiles s' = translation_profiles s"
  using assms(2,3)
proof (induction n arbitrary: s)
  case 0
  then show ?case by (simp add: index_in_range_def)
next
  case (Suc n)
  from next_profile_step [OF assms(1) Suc.prems(1)] obtain s1 where
    s1: "next_profile env s = Inr (True, s1)"
        "current_profile_index s1
           = (current_profile_index s + 1) mod int (length (translation_profiles s))"
        "translation_profiles s1 = translation_profiles s"
    by blast
  from Suc.prems s1(3) have ne: "translation_profiles s1 \<noteq> []" by simp
  then have "index_in_range s1"
    using s1(2) s1(3) by (simp add: index_in_range_def)
  from Suc.IH [OF ne this] obtain s2 where
    s2: "next_profile_times env n s1 = Inr (True, s2)"
        "current_profile_index s2
           = (current_profile_index s1 + int n) mod int (length (translation_profiles s1))"
        "translation_profiles s2 = translation_profiles s1"
    by blast
  have "next_profile_times env (Suc n) s = Inr (True, s2)"
    using s1(1) s2(1) by simp
  moreover have "current_profile_index s2
      = (current_profile_index s + int (Suc n)) mod int (length (translation_profiles s))"
    using s2(2) s1(2) s1(3) by (simp add: mod_simps algebra_simps)
  ultimately show ?case using s2(3) s1(3) by simp
qed

text \<open>
  C8: with a non-empty list of \<open>N\<close> profiles and every request answered with success,
  \<open>next_profile\<close> called \<open>N\<close> times from index 0 returns \<open>True\<close> each time and ends at
  index 0, and \<open>previous_profile\<close> called once from index 0 returns \<open>True\<close> and ends at
  index \<open>N - 1\<close>; one call of \<open>next_profile\<close> from any client with that property moves
  the index to \<open>(index + 1) mod N\<close>.
\<close>

theorem profile_wraparound:
  assumes "translation_profiles s \<noteq> []" "current_profile_index s = 0"
    and "\<forall>k. env k = Response_ok"
  shows "(\<exists>s'. next_profile_times env (length (translation_profiles s)) s = Inr (True, s')
            \<and> current_profile_index s' = 0)
       \<and> (\<exists>s'. previous_profile env s = Inr (True, s')
            \<and> current_profile_index s' = int (length (translation_profiles s)) - 1)
       \<and> (translation_profiles t \<noteq> [] \<longrightarrow>
            (\<exists>t'. next_profile env t = Inr (True, t')
               \<and> current_profile_index t'
                   = (current_profile_index t + 1) mod int (length (translation_profiles t))))"
proof -
  have rng: "index_in_range s"
    using assms(1,2) by (simp add: index_in_range_def)
  from next_profile_times_index [OF assms(3) assms(1) rng, of "length (translation_profiles s)"]
  have a: "\<exists>s'. next_profile_times env (length (translation_profiles s)) s = Inr (True, s')
            \<and> current_profile_index s' = 0"
    using assms(2) by auto
  have "(0 - 1) mod int (length (translation_profiles s)) = int (length (translation_profiles s)) - 1"
    using assms(1) by (simp add: zmod_minus1)
  with previous_profile_step [OF assms(3) assms(1)]
  have b: "\<exists>s'. previous_profile env s = Inr (True, s')
            \<and> current_profile_index s' = int (length (translation_profiles s)) - 1"
    using assms(2) by auto
  have c: "translation_profiles t \<noteq> [] \<longrightarrow>
            (\<exists>t'. next_profile env t = Inr (True, t')
               \<and> current_profile_index t'
                   = (current_profile_index t + 1) mod int (length (translation_profiles t)))"
    using next_profile_step [OF assms(3), of t] by blast
  from a b c show ?thesis by blast
qed

text \<open>The example client has two profiles: two steps forward, or one step back to 1.\<close>

theorem profile_wraparound_witness:
  "(\<exists>s'. next_profile_times (always Response_ok) 2 example_client = Inr (True, s')
       \<and> current_profile_index s' = 0)
   \<and> (\<exists>s'. previous_profile (always Response_ok) example_client = Inr (True, s')
       \<and> current_profile_index s' = 1)"
proof -
  have h: "translation_profiles example_client \<noteq> []" "current_profile_index example_client = 0"
    "\<forall>k. always Response_ok k = Response_ok"
    by (simp_all add: example_client_def init_client_def example_profiles_def always_def)
  have n: "length (translation_profiles example_client) = 2"
    by (simp add: example_client_def init_client_def example_profiles_def)
  from profile_wraparound [OF h, of example_client] show ?thesis
    by (simp add: n)
qed

subsection \<open>Failed requests\<close>

text \<open>
  What does hold when a request fails: an exception that \<open>_call_api\<close> lets through
  makes \<open>set_mute\<close> return \<open>False\<close> with index, mute flag and recognition language as
  they were.
\<close>

lemma set_mute_raised:
  assumes "env (length (api_calls s)) = Other_exception"
  shows "fst (set_mute env b s) = False"
    and "current_profile_index (snd (set_mute env b s)) = current_profile_index s"
    and "is_muted (snd (set_mute env b s)) = is_muted s"
    and "last_recognition_language (snd (set_mute env b s)) = last_recognition_language s"
  using assms by (simp_all add: set_mute_def call_api_def)

text \<open>
  C2: a failed control call should make \<open>set_translation_profile\<close> and \<open>set_mute\<close>
  return failure and leave index, mute flag and last recognition language as they were.
  The code does not do so when the failure is a \<open>RequestException\<close> (connection refused,
  timeout, error status): \<open>_call_api\<close> catches it and returns \<open>False\<close>, which the callers
  never look at. With every request failing that way, \<open>set_mute(False)\<close> on the example
  client returns \<open>True\<close> and clears the mute flag, and \<open>set_translation_profile(1)\<close>
  returns \<open>True\<close>, moves the index to 1 and records the recognition language.
\<close>

theorem failed_control_call_is_applied:
  "fst (set_mute (always Request_exception) False example_client) = True
   \<and> is_muted example_client = True
   \<and> is_muted (snd (set_mute (always Request_exception) False example_client)) = False
   \<and> fst (set_translation_profile (always Request_exception) 1 example_client) = True
   \<and> current_profile_index example_client = 0
   \<and> current_profile_index
        (snd (set_translation_profile (always Request_exception) 1 example_client)) = 1
   \<and> last_recognition_language example_client = None
   \<and> last_recognition_language
        (snd (set_translation_profile (always Request_exception) 1 example_client)) = Some ''ja''"
  by (simp add: set_mute_def set_translation_profile_def call_api_def on_status_change_def
        example_client_def init_client_def example_profiles_def always_def get_default_def
        Let_def)

text \<open>
  C7: the index stays within the profile list under every operation
  (\<open>index_in_range_preserved\<close>), but \<open>last_recognition_language\<close> should change only
  after a successful recognition-language call, and the code changes it after a failed
  one: on the example client the only request of \<open>set_translation_profile(0)\<close> that
  concerns the recognition language is \<open>/setRecognitionParam\<close>, it fails with a
  \<open>RequestException\<close>, and \<open>last_recognition_language\<close> goes from \<open>None\<close> to \<open>ja\<close>.
\<close>

theorem recognition_language_set_after_failed_call:
  "call_api (always Request_exception) (SetRecognitionParam (Some ''ja'')) example_client
     = (Inr False, example_client\<lparr>api_calls := [SetRecognitionParam (Some ''ja'')]\<rparr>)
   \<and> api_calls (snd (set_translation_profile (always Request_exception) 0 example_client))
       = [SetRecognitionParam (Some ''ja''), SetTranslationParam 1 ''en-US'' ''google'']
   \<and> last_recognition_language example_client = None
   \<and> last_recognition_language
        (snd (set_translation_profile (always Request_exception) 0 example_client)) = Some ''ja''"
  by (simp add: set_translation_profile_def call_api_def on_status_change_def
        example_client_def init_client_def example_profiles_def always_def get_default_def
        Let_def)

subsection \<open>The reconnect loop\<close>

lemma failed_attempt_step:
  "is_running s \<Longrightarrow> reconnect_attempts s < 1024 \<Longrightarrow>
     ws_connect_loop s (failed_attempt # rest) slept
       = ws_connect_loop (s\<lparr>reconnect_attempts := reconnect_attempts s + 1\<rparr>) rest
           (slept @ [min (reconnect_delay s * 2 ^ reconnect_attempts s) (max_reconnect_delay s)])"
  by (simp add: backoff_delay_def failed_attempt_def)

text \<open>
  Up to 1024 failed attempts in a row: the delays are \<open>min (d * 2 ^ i) max\<close> for the
  successive values \<open>i\<close> of the counter.
\<close>

lemma failures_delays:
  "is_running s \<Longrightarrow> reconnect_attempts s + n \<le> 1024 \<Longrightarrow>
     ws_connect_loop s (replicate n failed_attempt @ rest) slept
       = ws_connect_loop (s\<lparr>reconnect_attempts := reconnect_attempts s + n\<rparr>) rest
           (slept @ map (\<lambda>i. min (reconnect_delay s * 2 ^ (reconnect_attempts s + i))
                                (max_reconnect_delay s)) [0..<n])"
proof (induction n arbitrary: s slept)
  case 0
  then show ?case by simp
next
  case (Suc n)
  let ?s1 = "s\<lparr>reconnect_attempts := reconnect_attempts s + 1\<rparr>"
  let ?d = "\<lambda>i. min (reconnect_delay s * 2 ^ (reconnect_attempts s + i)) (max_reconnect_delay s)"
  have lt: "reconnect_attempts s < 1024" using Suc.prems by simp
  have "ws_connect_loop s (replicate (Suc n) failed_attempt @ rest) slept
      = ws_connect_loop ?s1 (replicate n failed_attempt @ rest) (slept @ [?d 0])"
    using failed_attempt_step [OF Suc.prems(1) lt, of "replicate n failed_attempt @ rest" slept]
    by simp
  also have "\<dots> = ws_connect_loop (?s1\<lparr>reconnect_attempts := reconnect_attempts ?s1 + n\<rparr>) rest
          ((slept @ [?d 0]) @ map (\<lambda>i. min (reconnect_delay ?s1 * 2 ^ (reconnect_attempts ?s1 + i))
                                (max_reconnect_delay ?s1)) [0..<n])"
    using Suc.prems by (intro Suc.IH) simp_all
  also have "\<dots> = ws_connect_loop (s\<lparr>reconnect_attempts := reconnect_attempts s + Suc n\<rparr>) rest
          (slept @ map ?d [0..<Suc n])"
    by (simp add: map_upt_Suc del: upt_Suc)
  finally show ?case .
qed

text \<open>
  An attempt that opened the connection resets the counter: the delay after it is
  \<open>min d max\<close>, whatever the counter was.
\<close>

lemma opened_attempt_step:
  "is_running s \<Longrightarrow>
     ws_connect_loop s (\<lparr>opened = True, disconnected = False\<rparr> # rest) slept
       = ws_connect_loop (s\<lparr>reconnect_attempts := 1\<rparr>) rest
           (slept @ [min (reconnect_delay s) (max_reconnect_delay s)])"
  by (simp add: backoff_delay_def on_ws_open_def)

lemma failed_attempt_keeps_counter_positive:
  "ws_connect_loop s [failed_attempt] slept = (st, slept', s') \<Longrightarrow> st = Waiting \<Longrightarrow>
     reconnect_attempts s' = reconnect_attempts s + 1"
  by (auto simp: failed_attempt_def Let_def split: if_splits sum.splits)

text \<open>
  C5: after \<open>n\<close> failed connection attempts in a row the loop should sleep
  \<open>min (d * 2 ^ n) max\<close> before the next one, for every \<open>n\<close>. The code does so while the
  counter is below 1024 (\<open>failures_delays\<close>, and \<open>opened_attempt_step\<close> for the reset), but
  with the default delays of 3.0 and 60.0 seconds and the counter at 1024 the product
  \<open>3.0 * (2 ** 1024)\<close> raises OverflowError outside the \<open>try\<close>: after 1024 failed attempts
  the next failure ends the loop instead of sleeping 60 seconds.
\<close>

theorem reconnect_loop_overflow:
  "backoff_delay (example_client\<lparr>reconnect_attempts := 1023\<rparr>) = Inr 60
   \<and> backoff_delay (example_client\<lparr>reconnect_attempts := 1024\<rparr>) = Inl OverflowError
   \<and> fst (ws_connect_loop (example_client\<lparr>is_running := True\<rparr>)
           (replicate 1024 failed_attempt @ [failed_attempt]) [])
       = Crashed OverflowError"
proof -
  let ?s = "example_client\<lparr>is_running := True\<rparr>"
  have "(60::real) \<le> 3 * 2 ^ 1023" by simp
  then have a: "backoff_delay (example_client\<lparr>reconnect_attempts := 1023\<rparr>) = Inr 60"
    by (simp add: backoff_delay_def example_client_def init_client_def)
  have b: "backoff_delay (example_client\<lparr>reconnect_attempts := 1024\<rparr>) = Inl OverflowError"
    by (simp add: backoff_delay_def)
  have "is_running ?s" "reconnect_attempts ?s + 1024 \<le> 1024"
    by (simp_all add: example_client_def init_client_def)
  from failures_delays [OF this, of "[failed_attempt]" "[]"]
  have c: "fst (ws_connect_loop ?s (replicate 1024 failed_attempt @ [failed_attempt]) [])
       = Crashed OverflowError"
    by (simp add: backoff_delay_def example_client_def init_client_def failed_attempt_def)
  from a b c show ?thesis by simp
qed

section \<open>Properties of the media key controller\<close>


subsection \<open>The client's own callback\<close>






subsection \<open>One key event\<close>







text \<open>
  When the first operation of a key event returns \<open>False\<close> (a request raised an exception
  that is not a \<open>RequestException\<close>), the handler skips its body: neither callback runs.
\<close>

lemma first_operation_fails_no_callback:
  "callbacks (on_key_press (always Other_exception) Media_next example_controller) = 0
   \<and> status_changes (yukacone (on_key_press (always Other_exception) Media_next
        example_controller)) = 0"
  by (simp add: on_key_press_def handle_next_def next_profile_def
        set_translation_profile_def call_api_def on_status_change_def
        example_controller_def example_client_def init_client_def example_profiles_def
        always_def get_default_def Let_def)




end
